theory Spec2Isabelle
  imports Main "HOL-Library.Word"
begin

section \<open>The connection layer of the ssh package (connection.go)\<close>

text \<open>
  A shallow embedding of \<^verbatim>\<open>ssh/connection.go\<close>. The file glues three collaborators
  that live elsewhere in the package: the packet transport (\<^verbatim>\<open>writePacket\<close>,
  \<^verbatim>\<open>readPacket\<close>), the wire codec (\<^verbatim>\<open>Marshal\<close>, \<^verbatim>\<open>decode\<close>) and the multiplexer
  (\<^verbatim>\<open>Request.Reply\<close>). Each of them enters the model as a parameter of the function
  that calls it, so every statement below holds for any implementation of them.
\<close>

type_synonym byte = "8 word"

subsection \<open>The fragment of Go's fmt package that the file uses\<close>

text \<open>
  \<^verbatim>\<open>fmt.Sprintf\<close> is called with three formats, built from literal text and the plain
  verbs \<^verbatim>\<open>%s\<close>, \<^verbatim>\<open>%d\<close> and \<^verbatim>\<open>%T\<close>. An operand is one of:
  a Go string; a value whose type has a \<^verbatim>\<open>String\<close> method, given by the text that
  method returns; an unsigned 32-bit integer; the nil interface; a non-nil pointer, given
  by the description of its type.
\<close>

datatype fmt_arg =
    GoString string
  | GoStringer string
  | GoUint32 "32 word"
  | GoNil
  | GoPtr string

text \<open>Decimal digits of a natural number, most significant first, as \<^verbatim>\<open>%d\<close> prints.\<close>

definition digit :: "nat \<Rightarrow> char" where
  "digit d = ''0123456789'' ! d"

function decimal :: "nat \<Rightarrow> string" where
  "decimal n = (if n < 10 then [digit n] else decimal (n div 10) @ [digit (n mod 10)])"
  by pat_completeness auto
termination
  by (relation "measure id") auto

declare decimal.simps [simp del]

definition digit_value :: "char \<Rightarrow> nat" where
  "digit_value ch = of_char ch - 48"

text \<open>
  What one verb prints for one operand. \<^verbatim>\<open>%T\<close> prints the dynamic type of any operand
  and \<^verbatim>\<open><nil>\<close> for the nil interface. The pairs of verb and operand that the file never
  forms, and every other verb, are outside the model and left unspecified.
\<close>

fun verb_s :: "fmt_arg \<Rightarrow> string" where
  "verb_s (GoString s) = s"
| "verb_s (GoStringer s) = s"

fun verb_d :: "fmt_arg \<Rightarrow> string" where
  "verb_d (GoUint32 n) = decimal (unat n)"

fun verb_T :: "fmt_arg \<Rightarrow> string" where
  "verb_T GoNil = ''<nil>''"
| "verb_T (GoPtr t) = t"
| "verb_T (GoString s) = ''string''"

definition verb :: "char \<Rightarrow> fmt_arg \<Rightarrow> string" where
  "verb v a =
     (if v = CHR ''s'' then verb_s a
      else if v = CHR ''d'' then verb_d a
      else if v = CHR ''T'' then verb_T a
      else undefined)"

text \<open>
  The format is read left to right: a character other than \<^verbatim>\<open>%\<close> is copied,
  \<^verbatim>\<open>%%\<close> prints one percent sign, and \<^verbatim>\<open>%\<close> followed by a verb consumes the next
  operand (Go prints \<^verbatim>\<open>%!v(MISSING)\<close> for a verb \<^verbatim>\<open>v\<close> with no operand left). Operands
  left over at the end of the format are outside the model.
\<close>

fun Sprintf :: "string \<Rightarrow> fmt_arg list \<Rightarrow> string" where
  "Sprintf [] [] = []"
| "Sprintf [c] [] = (if c = CHR ''%'' then ''%!(NOVERB)'' else [c])"
| "Sprintf (c # v # fs) args =
     (if c \<noteq> CHR ''%'' then c # Sprintf (v # fs) args
      else if v = CHR ''%'' then CHR ''%'' # Sprintf fs args
      else (case args of
              [] \<Rightarrow> ''%!'' @ [v] @ ''(MISSING)'' @ Sprintf fs []
            | a # as \<Rightarrow> verb v a @ Sprintf fs as))"

subsection \<open>Disconnect and channel-open errors\<close>

text \<open>
  \<^verbatim>\<open>RejectionReason\<close> is declared outside connection.go; the model takes its type as
  \<open>'r\<close> and its \<^verbatim>\<open>String\<close> method as the parameter \<open>String\<close>.
\<close>

record 'r OpenChannelError =
  Reason :: 'r
  Message :: string

definition OpenChannelError_Error :: "('r \<Rightarrow> string) \<Rightarrow> 'r OpenChannelError \<Rightarrow> string" where
  "OpenChannelError_Error String e =
     Sprintf ''ssh: rejected: %s (%s)''
       [GoStringer (String (OpenChannelError.Reason e)), GoString (OpenChannelError.Message e)]"

type_synonym DisconnectReason = "32 word"

definition HostNotAllowedToConnect :: DisconnectReason where "HostNotAllowedToConnect = 1"
definition ProtocolError :: DisconnectReason where "ProtocolError = 2"
definition KeyExchangeFailed :: DisconnectReason where "KeyExchangeFailed = 3"
definition MacError :: DisconnectReason where "MacError = 5"
definition CompressionError :: DisconnectReason where "CompressionError = 6"
definition ServiceNotAvailable :: DisconnectReason where "ServiceNotAvailable = 7"
definition ProtocolVersionNotSupported :: DisconnectReason where "ProtocolVersionNotSupported = 8"
definition HostKeyNotVerifiable :: DisconnectReason where "HostKeyNotVerifiable = 9"
definition ConnectionLost :: DisconnectReason where "ConnectionLost = 10"
definition ByApplication :: DisconnectReason where "ByApplication = 11"
definition TooManyConnections :: DisconnectReason where "TooManyConnections = 12"
definition AuthCancelledByUser :: DisconnectReason where "AuthCancelledByUser = 13"
definition NoMoreAuthMethodsAvailable :: DisconnectReason where "NoMoreAuthMethodsAvailable = 14"
definition IllegalUserName :: DisconnectReason where "IllegalUserName = 15"

text \<open>
  The const block of lines 27 to 43, in the order it is written: name and value. Only the
  first constant is declared with the type \<^verbatim>\<open>DisconnectReason\<close>; the others are untyped
  integer constants, which take that type where a reason is expected.
\<close>

definition DisconnectReason_consts :: "(string \<times> DisconnectReason) list" where
  "DisconnectReason_consts =
     [(''HostNotAllowedToConnect'', HostNotAllowedToConnect),
      (''ProtocolError'', ProtocolError),
      (''KeyExchangeFailed'', KeyExchangeFailed),
      (''MacError'', MacError),
      (''CompressionError'', CompressionError),
      (''ServiceNotAvailable'', ServiceNotAvailable),
      (''ProtocolVersionNotSupported'', ProtocolVersionNotSupported),
      (''HostKeyNotVerifiable'', HostKeyNotVerifiable),
      (''ConnectionLost'', ConnectionLost),
      (''ByApplication'', ByApplication),
      (''TooManyConnections'', TooManyConnections),
      (''AuthCancelledByUser'', AuthCancelledByUser),
      (''NoMoreAuthMethodsAvailable'', NoMoreAuthMethodsAvailable),
      (''IllegalUserName'', IllegalUserName)]"

record DisconnectError =
  Reason :: DisconnectReason
  Message :: string

definition DisconnectError_Error :: "DisconnectError \<Rightarrow> string" where
  "DisconnectError_Error d =
     Sprintf ''ssh: disconnect, reason %d: %s''
       [GoUint32 (DisconnectError.Reason d), GoString (DisconnectError.Message d)]"

subsection \<open>Connection messages and the values behind an interface\<close>

text \<open>
  Lines 101 to 133: fourteen struct types of the package are given exported names, and a
  pointer to each of them has the marker method \<^verbatim>\<open>isMessageMarker\<close>. Nothing else in
  the file has it, so a non-nil \<^verbatim>\<open>Message\<close> is a pointer to one of these fourteen.
\<close>

datatype message_type =
    GlobalRequestMsg
  | GlobalRequestSuccessMsg
  | GlobalRequestFailureMsg
  | ChannelOpenMsg
  | ChannelOpenConfirmMsg
  | ChannelOpenFailureMsg
  | ChannelDataMsg
  | ChannelExtendedDataMsg
  | ChannelWindowAdjustMsg
  | ChannelEOFMsg
  | ChannelRequestMsg
  | ChannelRequestSuccessMsg
  | ChannelRequestFailureMsg
  | ChannelCloseMsg

text \<open>The struct each exported name is an alias of (lines 101 to 114).\<close>

fun struct_name :: "message_type \<Rightarrow> string" where
  "struct_name GlobalRequestMsg = ''globalRequestMsg''"
| "struct_name GlobalRequestSuccessMsg = ''globalRequestSuccessMsg''"
| "struct_name GlobalRequestFailureMsg = ''globalRequestFailureMsg''"
| "struct_name ChannelOpenMsg = ''channelOpenMsg''"
| "struct_name ChannelOpenConfirmMsg = ''channelOpenConfirmMsg''"
| "struct_name ChannelOpenFailureMsg = ''channelOpenFailureMsg''"
| "struct_name ChannelDataMsg = ''channelDataMsg''"
| "struct_name ChannelExtendedDataMsg = ''channelExtendedDataMsg''"
| "struct_name ChannelWindowAdjustMsg = ''windowAdjustMsg''"
| "struct_name ChannelEOFMsg = ''channelEOFMsg''"
| "struct_name ChannelRequestMsg = ''channelRequestMsg''"
| "struct_name ChannelRequestSuccessMsg = ''channelRequestSuccessMsg''"
| "struct_name ChannelRequestFailureMsg = ''channelRequestFailureMsg''"
| "struct_name ChannelCloseMsg = ''channelCloseMsg''"

text \<open>
  A non-nil value of type \<^verbatim>\<open>interface{}\<close>, as \<^verbatim>\<open>decode\<close> returns and \<^verbatim>\<open>Marshal\<close>
  takes: a pointer to one of the fourteen structs (its fields, declared in another file,
  are the abstract \<open>'p\<close>); the \<^verbatim>\<open>&disconnectMsg{Reason, Message}\<close> of line 210; or a value
  of any other type, known by the description of that type. The nil interface is
  \<open>None\<close>.
\<close>

datatype 'p dynval =
    Msg message_type 'p
  | DisconnectMsg "32 word" string
  | Other string 'p

type_synonym 'p iface = "'p dynval option"

text \<open>A value of the interface type \<^verbatim>\<open>Message\<close>: nil, or a pointer to one of the fourteen.\<close>

type_synonym 'p Message = "(message_type \<times> 'p) option"

fun to_iface :: "'p Message \<Rightarrow> 'p iface" where
  "to_iface None = None"
| "to_iface (Some (t, p)) = Some (Msg t p)"

text \<open>
  The type assertion \<^verbatim>\<open>msg.(Message)\<close> in its two-result form: the value and true when
  the dynamic type has the marker method, the zero value of \<^verbatim>\<open>Message\<close> (nil) and false
  otherwise, also for the nil interface.
\<close>

fun assert_Message :: "'p iface \<Rightarrow> 'p Message \<times> bool" where
  "assert_Message (Some (Msg t p)) = (Some (t, p), True)"
| "assert_Message (Some (DisconnectMsg r m)) = (None, False)"
| "assert_Message (Some (Other d p)) = (None, False)"
| "assert_Message None = (None, False)"

text \<open>A \<^verbatim>\<open>Message\<close> as an operand of fmt: nil, or a pointer with its type description.\<close>

fun Message_arg :: "'p Message \<Rightarrow> fmt_arg" where
  "Message_arg None = GoNil"
| "Message_arg (Some (t, p)) = GoPtr (''*ssh.'' @ struct_name t)"

text \<open>What \<^verbatim>\<open>%T\<close> prints for a value behind \<^verbatim>\<open>interface{}\<close>.\<close>

fun type_description :: "'p iface \<Rightarrow> string" where
  "type_description None = ''<nil>''"
| "type_description (Some (Msg t p)) = ''*ssh.'' @ struct_name t"
| "type_description (Some (DisconnectMsg r m)) = ''*ssh.disconnectMsg''"
| "type_description (Some (Other d p)) = d"

text \<open>
  An error value: one produced by a collaborator (opaque here), or one made by
  \<^verbatim>\<open>fmt.Errorf\<close>, which is its text. A nil error is \<open>None\<close>.
\<close>

datatype 'e error = External 'e | FmtError string

definition Errorf :: "string \<Rightarrow> fmt_arg list \<Rightarrow> 'e error" where
  "Errorf format args = FmtError (Sprintf format args)"

subsection \<open>Byte slices and the memory behind them\<close>

text \<open>
  The metadata getters copy byte slices, and what they promise is about aliasing, so memory is
  explicit: the heap is the list of the backing arrays allocated so far, an array's
  address is its index, and a slice is a window of \<open>len\<close> bytes at offset \<open>off\<close> of the
  array \<open>arr\<close>. A slice of length 0 reads as empty whatever its array is (so does the nil
  slice).
\<close>

type_synonym heap = "byte list list"

record slice =
  arr :: nat
  off :: nat
  len :: nat

definition contents :: "heap \<Rightarrow> slice \<Rightarrow> byte list" where
  "contents h s = take (len s) (drop (off s) (h ! arr s))"

definition slice_ok :: "heap \<Rightarrow> slice \<Rightarrow> bool" where
  "slice_ok h s = (len s = 0 \<or> (arr s < length h \<and> off s + len s \<le> length (h ! arr s)))"

text \<open>\<^verbatim>\<open>make([]byte, n)\<close>: a new zeroed array of n bytes, and the slice of all of it.\<close>

definition make_slice :: "nat \<Rightarrow> heap \<Rightarrow> slice \<times> heap" where
  "make_slice n h = (\<lparr>arr = length h, off = 0, len = n\<rparr>, h @ [replicate n 0])"

text \<open>
  \<^verbatim>\<open>copy(dst, src)\<close>: the first min(len dst, len src) bytes of src overwrite the
  start of dst; the number of bytes copied is returned.
\<close>

definition copy :: "slice \<Rightarrow> slice \<Rightarrow> heap \<Rightarrow> nat \<times> heap" where
  "copy dst src h =
     (let n = min (len dst) (len src);
          bytes = take n (contents h src);
          a = h ! arr dst
      in (n, h[arr dst := take (off dst) a @ bytes @ drop (off dst + n) a]))"

text \<open>
  \<^verbatim>\<open>s[i] = v\<close>, the way a caller changes a buffer it holds: a run-time panic
  (\<open>None\<close>) when the index is out of range.
\<close>

definition store :: "slice \<Rightarrow> nat \<Rightarrow> byte \<Rightarrow> heap \<Rightarrow> heap option" where
  "store s i v h =
     (if i < len s then Some (h[arr s := (h ! arr s)[off s + i := v]]) else None)"

definition dup :: "slice \<Rightarrow> heap \<Rightarrow> slice \<times> heap" where
  "dup src h =
     (let (dst, h1) = make_slice (len src) h;
          (n, h2) = copy dst src h1
      in (dst, h2))"

subsection \<open>The connection and its metadata\<close>

text \<open>
  \<^verbatim>\<open>net.Conn\<close>, \<^verbatim>\<open>handshakeTransport\<close> and \<^verbatim>\<open>mux\<close> are handles \<open>'n\<close>, \<open>'t\<close> and \<open>'m\<close> to
  state that lives in the world \<open>'w\<close> of the collaborators; the transport writes to the
  same socket that \<^verbatim>\<open>Close\<close> closes, so one world holds both.
\<close>

record 'n sshConn =
  conn :: 'n
  user :: string
  sessionID :: slice
  clientVersion :: slice
  serverVersion :: slice

record ('t, 'n, 'm) connection =
  transport :: 't
  sshConn :: "'n sshConn"
  mux :: 'm

definition User :: "'n sshConn \<Rightarrow> string" where
  "User c = user c"

definition SessionID :: "'n sshConn \<Rightarrow> heap \<Rightarrow> slice \<times> heap" where
  "SessionID c h = dup (sessionID c) h"

definition ClientVersion :: "'n sshConn \<Rightarrow> heap \<Rightarrow> slice \<times> heap" where
  "ClientVersion c h = dup (clientVersion c) h"

definition ServerVersion :: "'n sshConn \<Rightarrow> heap \<Rightarrow> slice \<times> heap" where
  "ServerVersion c h = dup (serverVersion c) h"

text \<open>The three byte values the connection retains, as they read in a heap.\<close>

definition retained :: "'n sshConn \<Rightarrow> heap \<Rightarrow> byte list \<times> byte list \<times> byte list" where
  "retained c h =
     (contents h (sessionID c), contents h (clientVersion c), contents h (serverVersion c))"

definition sshConn_Close :: "('n \<Rightarrow> 'w \<Rightarrow> 'e error option \<times> 'w) \<Rightarrow> 'n sshConn \<Rightarrow> 'w \<Rightarrow> 'e error option \<times> 'w" where
  "sshConn_Close net_Close c w = net_Close (conn c) w"

subsection \<open>The raw connection: send, receive, disconnect, close\<close>

text \<open>
  The collaborators are parameters: \<open>Marshal\<close> gives the packet of a value, or \<open>None\<close>
  where it panics; \<open>writePacket\<close> and \<open>readPacket\<close> act on the transport behind a
  handle and return Go's results, an error being \<open>None\<close> when nil; \<open>decode\<close> returns
  a value and an error. A call of the model returns \<open>None\<close> when \<open>Marshal\<close> panicked,
  and otherwise Go's results with the new world.
\<close>

definition SendMessage ::
  "('p iface \<Rightarrow> byte list option) \<Rightarrow> ('t \<Rightarrow> byte list \<Rightarrow> 'w \<Rightarrow> 'e error option \<times> 'w) \<Rightarrow>
   ('t, 'n, 'm) connection \<Rightarrow> 'p Message \<Rightarrow> 'w \<Rightarrow> ('e error option \<times> 'w) option" where
  "SendMessage Marshal writePacket c msg w =
     (case Marshal (to_iface msg) of
        None \<Rightarrow> None
      | Some packet \<Rightarrow> Some (writePacket (transport c) packet w))"

definition ReceiveMessage ::
  "('t \<Rightarrow> 'w \<Rightarrow> (byte list \<times> 'e error option) \<times> 'w) \<Rightarrow> (byte list \<Rightarrow> 'p iface \<times> 'e error option) \<Rightarrow>
   ('t, 'n, 'm) connection \<Rightarrow> 'w \<Rightarrow> ('p Message \<times> 'e error option) \<times> 'w" where
  "ReceiveMessage readPacket decode c w =
     (let ((packet, err), w') = readPacket (transport c) w in
      if err \<noteq> None then ((None, err), w')
      else
        let (msg, err) = decode packet in
        if err \<noteq> None then ((None, err), w')
        else
          let (msg, ok) = assert_Message msg in
          if \<not> ok then
            ((None, Some (Errorf ''Not a valid connection message: %T'' [Message_arg msg])), w')
          else ((msg, None), w'))"

definition Disconnect ::
  "('p iface \<Rightarrow> byte list option) \<Rightarrow> ('t \<Rightarrow> byte list \<Rightarrow> 'w \<Rightarrow> 'e error option \<times> 'w) \<Rightarrow>
   ('t, 'n, 'm) connection \<Rightarrow> DisconnectReason \<Rightarrow> string \<Rightarrow> 'w \<Rightarrow> ('e error option \<times> 'w) option" where
  "Disconnect Marshal writePacket c reason message w =
     (case Marshal (Some (DisconnectMsg reason message)) of
        None \<Rightarrow> None
      | Some packet \<Rightarrow> Some (writePacket (transport c) packet w))"

definition Close ::
  "('n \<Rightarrow> 'w \<Rightarrow> 'e error option \<times> 'w) \<Rightarrow> ('t, 'n, 'm) connection \<Rightarrow> 'w \<Rightarrow> 'e error option \<times> 'w" where
  "Close net_Close c w = net_Close (conn (sshConn c)) w"

subsection \<open>Discarding requests\<close>

text \<open>
  \<^verbatim>\<open>Request\<close> is declared in another file; the model keeps the one field read here and
  the rest as \<open>other\<close>. A receive-only channel is the items still to be delivered and
  whether its producer closes it after them: \<^verbatim>\<open>range\<close> ends on a closed channel and
  waits for ever on one that is never closed, which is the result \<open>None\<close>.
  \<open>Reply\<close> is the method \<^verbatim>\<open>Request.Reply(ok, payload)\<close>, a nil payload being \<open>None\<close>;
  the error it returns is dropped, as in the source.
\<close>

record 'x Request =
  WantReply :: bool
  other :: 'x

datatype 'a chan = Chan (items: "'a list") (closed: bool)

fun drain ::
  "('x Request \<Rightarrow> bool \<Rightarrow> byte list option \<Rightarrow> 'w \<Rightarrow> 'e error option \<times> 'w) \<Rightarrow>
   'x Request list \<Rightarrow> 'w \<Rightarrow> 'w" where
  "drain Reply [] w = w"
| "drain Reply (req # rest) w =
     (if WantReply req then drain Reply rest (snd (Reply req False None w))
      else drain Reply rest w)"

definition DiscardRequests ::
  "('x Request \<Rightarrow> bool \<Rightarrow> byte list option \<Rightarrow> 'w \<Rightarrow> 'e error option \<times> 'w) \<Rightarrow>
   'x Request chan \<Rightarrow> 'w \<Rightarrow> 'w option" where
  "DiscardRequests Reply in_chan w =
     (if closed in_chan then Some (drain Reply (items in_chan) w) else None)"

subsection \<open>Collaborators for concrete runs\<close>

text \<open>
  The statements of the next section hold for every collaborator. To run the model on
  concrete inputs the parameters are instantiated with the simple ones below.
\<close>

text \<open>
  Modelled from the spec: \<^verbatim>\<open>handshakeTransport.writePacket\<close> is not in connection.go.
  The spec asks of the transport only that it writes one whole packet, in order, and
  reports an I/O error. \<open>write_accepting\<close> appends the packet to the list of packets
  written; \<open>write_failing\<close> writes nothing and reports the given error.
\<close>

definition write_accepting ::
  "unit \<Rightarrow> byte list \<Rightarrow> byte list list \<Rightarrow> unit error option \<times> byte list list" where
  "write_accepting t packet w = (None, w @ [packet])"

definition write_failing ::
  "'e error \<Rightarrow> unit \<Rightarrow> byte list \<Rightarrow> byte list list \<Rightarrow> 'e error option \<times> byte list list" where
  "write_failing e t packet w = (Some e, w)"

text \<open>
  Modelled from the spec: \<^verbatim>\<open>handshakeTransport.readPacket\<close> and \<^verbatim>\<open>decode\<close> are not in
  connection.go. The spec gives their results: a packet or an I/O error, a value or a
  decode error. The two below return the result they are given.
\<close>

definition read_returning ::
  "byte list \<times> 'e error option \<Rightarrow> unit \<Rightarrow> byte list list \<Rightarrow>
   (byte list \<times> 'e error option) \<times> byte list list" where
  "read_returning r t w = (r, w)"

definition decode_returning ::
  "'p iface \<times> 'e error option \<Rightarrow> byte list \<Rightarrow> 'p iface \<times> 'e error option" where
  "decode_returning r packet = r"

text \<open>
  Modelled from the spec: \<^verbatim>\<open>Marshal\<close> is not in connection.go. The spec fixes of the wire
  format only that a packet starts with the byte of its message type; \<open>marshal_number\<close>
  writes that byte (the protocol's message numbers) and nothing else, and panics on a
  value that is not a message.
\<close>

fun message_number :: "message_type \<Rightarrow> byte" where
  "message_number GlobalRequestMsg = 80"
| "message_number GlobalRequestSuccessMsg = 81"
| "message_number GlobalRequestFailureMsg = 82"
| "message_number ChannelOpenMsg = 90"
| "message_number ChannelOpenConfirmMsg = 91"
| "message_number ChannelOpenFailureMsg = 92"
| "message_number ChannelWindowAdjustMsg = 93"
| "message_number ChannelDataMsg = 94"
| "message_number ChannelExtendedDataMsg = 95"
| "message_number ChannelEOFMsg = 96"
| "message_number ChannelCloseMsg = 97"
| "message_number ChannelRequestMsg = 98"
| "message_number ChannelRequestSuccessMsg = 99"
| "message_number ChannelRequestFailureMsg = 100"

fun marshal_number :: "unit iface \<Rightarrow> byte list option" where
  "marshal_number None = None"
| "marshal_number (Some (Msg t p)) = Some [message_number t]"
| "marshal_number (Some (DisconnectMsg r m)) = Some [1]"
| "marshal_number (Some (Other d p)) = None"

text \<open>
  Modelled from the spec: \<^verbatim>\<open>Request.Reply\<close> is not in connection.go. The spec has it
  answer a request with a verdict and a payload; \<open>reply_recording\<close> appends the request,
  the verdict and the payload to the list of replies sent.
\<close>

definition reply_recording ::
  "'x Request \<Rightarrow> bool \<Rightarrow> byte list option \<Rightarrow> ('x Request \<times> bool \<times> byte list option) list \<Rightarrow>
   unit error option \<times> ('x Request \<times> bool \<times> byte list option) list" where
  "reply_recording req ok payload w = (None, w @ [(req, ok, payload)])"

text \<open>
  Modelled from the spec: \<^verbatim>\<open>RejectionReason\<close> and its \<^verbatim>\<open>String\<close> method are not in
  connection.go, and the spec leaves the reason texts open; \<open>RejectionReason_text\<close>
  names a reason by its number.
\<close>

definition RejectionReason_text :: "32 word \<Rightarrow> string" where
  "RejectionReason_text r = ''reason '' @ decimal (unat r)"

text \<open>A connection and a heap to run on: the two version strings share one array.\<close>

definition conn0 :: "(unit, unit, unit) connection" where
  "conn0 = \<lparr>transport = (), sshConn = \<lparr>conn = (), user = ''alice'',
      sessionID = \<lparr>arr = 0, off = 0, len = 3\<rparr>,
      clientVersion = \<lparr>arr = 1, off = 0, len = 2\<rparr>,
      serverVersion = \<lparr>arr = 1, off = 2, len = 2\<rparr>\<rparr>, mux = ()\<rparr>"

definition heap0 :: heap where
  "heap0 = [[1, 2, 3], [4, 5, 6, 7]]"

section \<open>Properties\<close>

subsection \<open>Formatting\<close>

lemma digit_value_digit: "d < 10 \<Longrightarrow> digit_value (digit d) = d"
proof -
  assume "d < 10"
  then have "d \<in> {0, 1, 2, 3, 4, 5, 6, 7, 8, 9}"
    by auto
  then show ?thesis
    by (auto simp: digit_value_def digit_def)
qed

text \<open>\<open>decimal\<close> is the base-ten numeral: reading its digits back gives the number.\<close>

lemma decimal_value: "foldl (\<lambda>a ch. 10 * a + digit_value ch) 0 (decimal n) = n"
proof (induction n rule: decimal.induct)
  case (1 n)
  show ?case
  proof (cases "n < 10")
    case True
    then show ?thesis
      by (simp add: decimal.simps [of n] digit_value_digit)
  next
    case False
    with 1 show ?thesis
      by (simp add: decimal.simps [of n] digit_value_digit)
  qed
qed

text \<open>
  C2 (as the code has it). For every rejection reason and every message, \<^verbatim>\<open>Error()\<close> of an
  \<^verbatim>\<open>OpenChannelError\<close> is the text \<^verbatim>\<open>ssh: rejected: <reason> (<message>)\<close>: the package
  prefix \<^verbatim>\<open>ssh: \<close>, then \<^verbatim>\<open>rejected: \<close>, the text of the reason's \<^verbatim>\<open>String\<close> method, a
  space, and the message in parentheses, with nothing after it.
\<close>

theorem OpenChannelError_Error_text:
  "OpenChannelError_Error String e =
   ''ssh: rejected: '' @ String (OpenChannelError.Reason e) @ '' ('' @
     OpenChannelError.Message e @ '')''"
  by (simp add: OpenChannelError_Error_def verb_def)

text \<open>
  C2 as stated, with no prefix, fails: for reason 1 and message \<^verbatim>\<open>denied\<close> the text
  starts with \<^verbatim>\<open>ssh: \<close>.
\<close>

theorem OpenChannelError_Error_has_prefix:
  "OpenChannelError_Error RejectionReason_text \<lparr>OpenChannelError.Reason = 1, Message = ''denied''\<rparr>
     = ''ssh: rejected: reason 1 (denied)'' \<and>
   OpenChannelError_Error RejectionReason_text \<lparr>OpenChannelError.Reason = 1, Message = ''denied''\<rparr>
     \<noteq> ''rejected: '' @ RejectionReason_text 1 @ '' ('' @ ''denied'' @ '')''"
  by (simp add: OpenChannelError_Error_def verb_def RejectionReason_text_def decimal.simps digit_def)

text \<open>
  C3 (as the code has it). For every disconnect reason and every message, \<^verbatim>\<open>Error()\<close> of a
  \<^verbatim>\<open>DisconnectError\<close> is the text \<^verbatim>\<open>ssh: disconnect, reason <n>: <message>\<close>: the package
  prefix \<^verbatim>\<open>ssh: \<close>, then \<^verbatim>\<open>disconnect, reason \<close>, the reason as a decimal number, a
  colon and a space, and the message, with nothing after it.
\<close>

theorem DisconnectError_Error_text:
  "DisconnectError_Error d =
   ''ssh: disconnect, reason '' @ decimal (unat (DisconnectError.Reason d)) @ '': '' @
     DisconnectError.Message d"
  by (simp add: DisconnectError_Error_def verb_def)

text \<open>
  C3 as stated, with no prefix, fails: for the reason \<^verbatim>\<open>ByApplication\<close> and the message
  \<^verbatim>\<open>bye\<close> the text starts with \<^verbatim>\<open>ssh: \<close>.
\<close>

theorem DisconnectError_Error_has_prefix:
  "DisconnectError_Error \<lparr>DisconnectError.Reason = ByApplication, Message = ''bye''\<rparr>
     = ''ssh: disconnect, reason 11: bye'' \<and>
   DisconnectError_Error \<lparr>DisconnectError.Reason = ByApplication, Message = ''bye''\<rparr>
     \<noteq> ''disconnect, reason 11: bye''"
  by (simp add: DisconnectError_Error_def verb_def ByApplication_def decimal.simps digit_def)

subsection \<open>The disconnect reasons\<close>

lemmas reason_defs =
  HostNotAllowedToConnect_def ProtocolError_def KeyExchangeFailed_def MacError_def
  CompressionError_def ServiceNotAvailable_def ProtocolVersionNotSupported_def
  HostKeyNotVerifiable_def ConnectionLost_def ByApplication_def TooManyConnections_def
  AuthCancelledByUser_def NoMoreAuthMethodsAvailable_def IllegalUserName_def

text \<open>
  C6 (as the code has it). The const block names fourteen disconnect reasons; their values
  are 1 to 3 and 5 to 15 in this order, 4 is the value of none of them, and the names are
  those of the protocol's disconnect causes, from \<^verbatim>\<open>HostNotAllowedToConnect\<close> = 1 to
  \<^verbatim>\<open>IllegalUserName\<close> = 15.
\<close>

theorem DisconnectReason_consts_values:
  "map snd DisconnectReason_consts = [1, 2, 3, 5, 6, 7, 8, 9, 10, 11, 12, 13, 14, 15] \<and>
   length DisconnectReason_consts = 14 \<and>
   4 \<notin> set (map snd DisconnectReason_consts) \<and>
   map fst DisconnectReason_consts =
     [''HostNotAllowedToConnect'', ''ProtocolError'', ''KeyExchangeFailed'', ''MacError'',
      ''CompressionError'', ''ServiceNotAvailable'', ''ProtocolVersionNotSupported'',
      ''HostKeyNotVerifiable'', ''ConnectionLost'', ''ByApplication'', ''TooManyConnections'',
      ''AuthCancelledByUser'', ''NoMoreAuthMethodsAvailable'', ''IllegalUserName'']"
  by (simp add: DisconnectReason_consts_def reason_defs)

text \<open>C6 as stated counts fifteen codes; the block has fourteen.\<close>

theorem DisconnectReason_consts_not_15: "length DisconnectReason_consts \<noteq> 15"
  by (simp add: DisconnectReason_consts_def)

subsection \<open>Metadata getters return copies\<close>

lemma contents_length: "slice_ok h s \<Longrightarrow> length (contents h s) = len s"
  by (auto simp: slice_ok_def contents_def)

lemma contents_append: "slice_ok h s \<Longrightarrow> contents (h @ xs) s = contents h s"
  by (auto simp: slice_ok_def contents_def nth_append)

lemma slice_ok_append: "slice_ok h s \<Longrightarrow> slice_ok (h @ xs) s"
  by (auto simp: slice_ok_def nth_append)

lemma contents_fresh: "contents (h @ [x]) \<lparr>arr = length h, off = 0, len = length x\<rparr> = x"
  by (simp add: contents_def)

text \<open>\<open>dup\<close> allocates one array after all others and fills it with the bytes of its source.\<close>

lemma dup_eq:
  assumes "slice_ok h s"
  shows "dup s h = (\<lparr>arr = length h, off = 0, len = len s\<rparr>, h @ [contents h s])"
proof -
  have c: "contents (h @ [replicate (len s) 0]) s = contents h s"
    using assms by (rule contents_append)
  have l: "length (contents h s) = len s"
    using assms by (rule contents_length)
  show ?thesis
    by (simp add: dup_def make_slice_def copy_def Let_def c l)
qed

text \<open>A store through a slice of an array allocated after \<open>h\<close> leaves \<open>h\<close> as it was.\<close>

lemma store_frame:
  assumes "store b i v (h @ xs) = Some h3" "arr b \<ge> length h"
  shows "\<exists>ys. h3 = h @ ys \<and> length ys = length xs"
proof -
  from assms have "h3 = (h @ xs)[arr b := ((h @ xs) ! arr b)[off b + i := v]]"
    by (auto simp: store_def split: if_splits)
  with assms(2) have "h3 = h @ xs[arr b - length h := ((h @ xs) ! arr b)[off b + i := v]]"
    by (simp add: list_update_append)
  then show ?thesis
    by auto
qed

lemma store_other:
  "store b i v h = Some h3 \<Longrightarrow> arr s \<noteq> arr b \<Longrightarrow> contents h3 s = contents h s"
  by (auto simp: store_def contents_def split: if_splits)

lemma retained_append:
  "slice_ok h (sessionID c) \<Longrightarrow> slice_ok h (clientVersion c) \<Longrightarrow>
   slice_ok h (serverVersion c) \<Longrightarrow> retained c (h @ xs) = retained c h"
  by (simp add: retained_def contents_append)

lemma getter_cases:
  assumes "(g, f) = (SessionID, sessionID) \<or> (g, f) = (ClientVersion, clientVersion) \<or>
           (g, f) = (ServerVersion, serverVersion)"
  shows "g c h = dup (f c) h"
  using assms by (auto simp: SessionID_def ClientVersion_def ServerVersion_def)

text \<open>
  C4. Let \<open>g\<close> be one of the getters \<^verbatim>\<open>SessionID\<close>, \<^verbatim>\<open>ClientVersion\<close>, \<^verbatim>\<open>ServerVersion\<close>
  and \<open>f\<close> the field it reads, on a connection whose three retained slices lie within
  the heap. Two calls in a row return slices \<open>b1\<close> and \<open>b2\<close> of two newly allocated
  arrays, each with the contents and the length of the retained value, and leave the
  three retained values as they were. A store through \<open>b1\<close> or through \<open>b2\<close> changes
  neither the retained values nor the other buffer; and when \<open>b1\<close> is changed before the
  second call, that call still returns the retained value.
\<close>

theorem getters_return_independent_copies:
  assumes ok: "slice_ok h (sessionID c)" "slice_ok h (clientVersion c)"
      "slice_ok h (serverVersion c)"
    and g: "(g, f) = (SessionID, sessionID) \<or> (g, f) = (ClientVersion, clientVersion) \<or>
            (g, f) = (ServerVersion, serverVersion)"
    and first: "g c h = (b1, h1)"
    and second: "g c h1 = (b2, h2)"
  shows "arr b1 = length h \<and> length h1 = Suc (length h) \<and>
         arr b2 = length h1 \<and> length h2 = Suc (length h1) \<and>
         contents h1 b1 = contents h (f c) \<and> len b1 = len (f c) \<and>
         contents h2 b2 = contents h (f c) \<and> len b2 = len (f c) \<and>
         retained c h1 = retained c h \<and> retained c h2 = retained c h \<and>
         contents h2 b1 = contents h1 b1 \<and>
         (\<forall>i v h3. store b1 i v h2 = Some h3 \<longrightarrow>
            retained c h3 = retained c h \<and> contents h3 b2 = contents h2 b2) \<and>
         (\<forall>i v h3. store b2 i v h2 = Some h3 \<longrightarrow>
            retained c h3 = retained c h \<and> contents h3 b1 = contents h2 b1) \<and>
         (\<forall>i v h1' b2' h2'. store b1 i v h1 = Some h1' \<longrightarrow> g c h1' = (b2', h2') \<longrightarrow>
            retained c h1' = retained c h \<and> contents h2' b2' = contents h (f c) \<and>
            contents h2' b1 = contents h1' b1)"
proof -
  have okf: "slice_ok h (f c)"
    using g ok by auto
  have b1: "b1 = \<lparr>arr = length h, off = 0, len = len (f c)\<rparr>"
    and h1: "h1 = h @ [contents h (f c)]"
    using first getter_cases [OF g, of c h] dup_eq [OF okf] by simp_all
  have lenf: "length (contents h (f c)) = len (f c)"
    using okf by (rule contents_length)
  have okf1: "slice_ok h1 (f c)"
    unfolding h1 using okf by (rule slice_ok_append)
  have cf1: "contents h1 (f c) = contents h (f c)"
    unfolding h1 using okf by (rule contents_append)
  have b2: "b2 = \<lparr>arr = Suc (length h), off = 0, len = len (f c)\<rparr>"
    and h2: "h2 = h @ [contents h (f c), contents h (f c)]"
    using second getter_cases [OF g, of c h1] dup_eq [OF okf1] cf1 by (simp_all add: h1)
  have c11: "contents h1 b1 = contents h (f c)"
    unfolding b1 h1 using contents_fresh [of h "contents h (f c)"] lenf by simp
  have r1: "retained c h1 = retained c h"
    unfolding h1 using ok by (rule retained_append)
  have r2: "retained c h2 = retained c h"
    unfolding h2 using ok by (rule retained_append)
  have c22: "contents h2 b2 = contents h (f c)"
    unfolding b2 h2 using lenf by (simp add: contents_def nth_append)
  have c21: "contents h2 b1 = contents h1 b1"
    unfolding b1 h1 h2 by (simp add: contents_def nth_append)
  have m1: "retained c h3 = retained c h \<and> contents h3 b2 = contents h2 b2"
    if s: "store b1 i v h2 = Some h3" for i v h3
  proof -
    from s obtain ys where "h3 = h @ ys"
      using store_frame [of b1 i v h "[contents h (f c), contents h (f c)]" h3]
      by (auto simp: h2 b1)
    then have "retained c h3 = retained c h"
      using retained_append [OF ok] by simp
    moreover have "contents h3 b2 = contents h2 b2"
      using s by (rule store_other) (simp add: b1 b2)
    ultimately show ?thesis
      by simp
  qed
  have m2: "retained c h3 = retained c h \<and> contents h3 b1 = contents h2 b1"
    if s: "store b2 i v h2 = Some h3" for i v h3
  proof -
    from s obtain ys where "h3 = h @ ys"
      using store_frame [of b2 i v h "[contents h (f c), contents h (f c)]" h3]
      by (auto simp: h2 b2)
    then have "retained c h3 = retained c h"
      using retained_append [OF ok] by simp
    moreover have "contents h3 b1 = contents h2 b1"
      using s by (rule store_other) (simp add: b1 b2)
    ultimately show ?thesis
      by simp
  qed
  have m3: "retained c h1' = retained c h \<and> contents h2' b2' = contents h (f c) \<and>
            contents h2' b1 = contents h1' b1"
    if s: "store b1 i v h1 = Some h1'" and t: "g c h1' = (b2', h2')" for i v h1' b2' h2'
  proof -
    from s obtain ys where ys: "h1' = h @ ys" "length ys = 1"
      using store_frame [of b1 i v h "[contents h (f c)]" h1'] by (auto simp: h1 b1)
    have r: "retained c h1' = retained c h"
      unfolding ys using ok by (rule retained_append)
    have okf': "slice_ok h1' (f c)"
      unfolding ys using okf by (rule slice_ok_append)
    have cf': "contents h1' (f c) = contents h (f c)"
      unfolding ys using okf by (rule contents_append)
    have "b2' = \<lparr>arr = length h1', off = 0, len = len (f c)\<rparr>"
      and "h2' = h1' @ [contents h (f c)]"
      using t getter_cases [OF g, of c h1'] dup_eq [OF okf'] cf' by simp_all
    then have "contents h2' b2' = contents h (f c)" "contents h2' b1 = contents h1' b1"
      using lenf ys by (simp_all add: contents_def nth_append b1)
    with r show ?thesis
      by simp
  qed
  show ?thesis
    using c11 r1 r2 c22 c21 m1 m2 m3 by (simp add: b1 b2 h1 h2)
qed

text \<open>
  The session hash \<^verbatim>\<open>[1, 2, 3]\<close> is read twice; writing 9 into the first copy leaves
  the retained values and the second copy as they were.
\<close>

theorem getters_return_independent_copies_witness:
  "slice_ok heap0 (sessionID (sshConn conn0)) \<and>
   slice_ok heap0 (clientVersion (sshConn conn0)) \<and>
   slice_ok heap0 (serverVersion (sshConn conn0)) \<and>
   SessionID (sshConn conn0) heap0 = (\<lparr>arr = 2, off = 0, len = 3\<rparr>, heap0 @ [[1, 2, 3]]) \<and>
   SessionID (sshConn conn0) (heap0 @ [[1, 2, 3]])
     = (\<lparr>arr = 3, off = 0, len = 3\<rparr>, heap0 @ [[1, 2, 3], [1, 2, 3]]) \<and>
   store \<lparr>arr = 2, off = 0, len = 3\<rparr> 0 9 (heap0 @ [[1, 2, 3], [1, 2, 3]])
     = Some (heap0 @ [[9, 2, 3], [1, 2, 3]]) \<and>
   retained (sshConn conn0) (heap0 @ [[9, 2, 3], [1, 2, 3]]) = retained (sshConn conn0) heap0 \<and>
   contents (heap0 @ [[9, 2, 3], [1, 2, 3]]) \<lparr>arr = 3, off = 0, len = 3\<rparr> = [1, 2, 3]"
proof -
  have ok: "slice_ok heap0 (sessionID (sshConn conn0))"
    "slice_ok heap0 (clientVersion (sshConn conn0))"
    "slice_ok heap0 (serverVersion (sshConn conn0))"
    by (simp_all add: slice_ok_def heap0_def conn0_def)
  have g: "(SessionID, sessionID) = (SessionID, sessionID) \<or>
           (SessionID, sessionID) = (ClientVersion, clientVersion) \<or>
           (SessionID :: unit sshConn \<Rightarrow> _, sessionID :: unit sshConn \<Rightarrow> _)
             = (ServerVersion, serverVersion)"
    by simp
  have first: "SessionID (sshConn conn0) heap0
     = (\<lparr>arr = 2, off = 0, len = 3\<rparr>, heap0 @ [[1, 2, 3]])"
    by (simp add: SessionID_def dup_def make_slice_def copy_def contents_def heap0_def conn0_def)
  have second: "SessionID (sshConn conn0) (heap0 @ [[1, 2, 3]])
     = (\<lparr>arr = 3, off = 0, len = 3\<rparr>, heap0 @ [[1, 2, 3], [1, 2, 3]])"
    by (simp add: SessionID_def dup_def make_slice_def copy_def contents_def heap0_def conn0_def)
  have st: "store \<lparr>arr = 2, off = 0, len = 3\<rparr> 0 9 (heap0 @ [[1, 2, 3], [1, 2, 3]])
     = Some (heap0 @ [[9, 2, 3], [1, 2, 3]])"
    by (simp add: store_def heap0_def)
  have c: "contents (heap0 @ [[1, 2, 3], [1, 2, 3]]) \<lparr>arr = 3, off = 0, len = 3\<rparr> = [1, 2, 3]"
    by (simp add: contents_def heap0_def)
  show ?thesis
    using ok first second st c getters_return_independent_copies [OF ok g first second]
    by simp
qed

subsection \<open>Sending, disconnecting and closing\<close>

lemma SendMessage_Some:
  "Marshal (to_iface msg) = Some packet \<Longrightarrow>
   SendMessage Marshal writePacket c msg w = Some (writePacket (transport c) packet w)"
  by (simp add: SendMessage_def)

text \<open>
  C8. For every message that \<^verbatim>\<open>Marshal\<close> accepts, \<^verbatim>\<open>SendMessage\<close> is one call of the
  transport's \<^verbatim>\<open>writePacket\<close> on the marshalled packet: it returns what that call
  returns, nil or the transport's error as it is, and the transport is left as that one
  call leaves it.
\<close>

theorem SendMessage_writes_Marshal:
  assumes "Marshal (to_iface msg) = Some packet"
  shows "SendMessage Marshal writePacket c msg w = Some (writePacket (transport c) packet w)"
  using assms by (rule SendMessage_Some)

text \<open>
  An end-of-file message on a transport that has written one packet: the accepting
  transport holds exactly one packet more, the failing one returns its error and holds
  what it held.
\<close>

theorem SendMessage_writes_Marshal_witness:
  "marshal_number (to_iface (Some (ChannelEOFMsg, ()))) = Some [96] \<and>
   SendMessage marshal_number write_accepting conn0 (Some (ChannelEOFMsg, ())) [[80]]
     = Some (None, [[80], [96]]) \<and>
   SendMessage marshal_number (write_failing (External ())) conn0 (Some (ChannelEOFMsg, ())) [[80]]
     = Some (Some (External ()), [[80]])"
proof -
  have m: "marshal_number (to_iface (Some (ChannelEOFMsg, ()))) = Some [96]"
    by simp
  show ?thesis
    using m
      SendMessage_writes_Marshal [where Marshal = marshal_number
        and msg = "Some (ChannelEOFMsg, ())" and packet = "[96]"
        and writePacket = write_accepting and c = conn0 and w = "[[80]]"]
      SendMessage_writes_Marshal [where Marshal = marshal_number
        and msg = "Some (ChannelEOFMsg, ())" and packet = "[96]"
        and writePacket = "write_failing (External ())" and c = conn0 and w = "[[80]]"]
    by (simp add: write_accepting_def write_failing_def)
qed

text \<open>
  C1, at a transport that accepts every write. The comment on \<^verbatim>\<open>Disconnect\<close> in both
  interfaces says that after it has been called no further messages can be sent. On this
  transport \<^verbatim>\<open>Disconnect\<close> returns success, having written the disconnect packet, and the
  \<^verbatim>\<open>SendMessage\<close> after it returns success too: its packet is written after the
  disconnect packet. Neither method looks at, or leaves, a record of the disconnect.
\<close>

theorem send_after_Disconnect_succeeds:
  "Disconnect marshal_number write_accepting conn0 ByApplication ''bye'' [] = Some (None, [[1]]) \<and>
   SendMessage marshal_number write_accepting conn0 (Some (ChannelEOFMsg, ())) [[1]]
     = Some (None, [[1], [96]])"
  by (simp add: Disconnect_def SendMessage_def write_accepting_def)

text \<open>
  C9. \<^verbatim>\<open>Close\<close> on the connection is the close of the socket held by the embedded
  \<^verbatim>\<open>sshConn\<close>, in whatever state the world is, and returns that call's result; so does
  \<^verbatim>\<open>sshConn.Close\<close>. It reads neither the transport nor the multiplexer, and no record
  of an earlier \<^verbatim>\<open>Disconnect\<close>.
\<close>

theorem Close_closes_socket:
  "Close net_Close c w = net_Close (conn (sshConn c)) w \<and>
   sshConn_Close net_Close (sshConn c) w = net_Close (conn (sshConn c)) w \<and>
   Close net_Close (c\<lparr>transport := t, mux := m\<rparr>) w = Close net_Close c w"
  by (simp add: Close_def sshConn_Close_def)

subsection \<open>Receiving\<close>

lemma assert_Message_cases:
  "assert_Message v = (m, ok) \<Longrightarrow> (ok \<and> m \<noteq> None) \<or> (\<not> ok \<and> m = None)"
  by (cases v rule: assert_Message.cases) auto

text \<open>The three ways \<^verbatim>\<open>ReceiveMessage\<close> fails, and the one way it succeeds.\<close>

lemma ReceiveMessage_read_error:
  "readPacket (transport c) w = ((packet, Some e), w') \<Longrightarrow>
   ReceiveMessage readPacket decode c w = ((None, Some e), w')"
  by (simp add: ReceiveMessage_def)

lemma ReceiveMessage_decode_error:
  "readPacket (transport c) w = ((packet, None), w') \<Longrightarrow> decode packet = (v, Some e) \<Longrightarrow>
   ReceiveMessage readPacket decode c w = ((None, Some e), w')"
  by (simp add: ReceiveMessage_def)

lemma ReceiveMessage_message:
  "readPacket (transport c) w = ((packet, None), w') \<Longrightarrow> decode packet = (Some (Msg t p), None) \<Longrightarrow>
   ReceiveMessage readPacket decode c w = ((Some (t, p), None), w')"
  by (simp add: ReceiveMessage_def)

lemma ReceiveMessage_not_a_message:
  assumes "readPacket (transport c) w = ((packet, None), w')" "decode packet = (v, None)"
      and "snd (assert_Message v) = False"
  shows "ReceiveMessage readPacket decode c w =
           ((None, Some (FmtError ''Not a valid connection message: <nil>'')), w')"
proof -
  obtain m where a: "assert_Message v = (m, False)"
    using assms(3) by (metis prod.collapse)
  from assert_Message_cases [OF a] have "m = None"
    by simp
  with assms(1,2) a show ?thesis
    by (simp add: ReceiveMessage_def Errorf_def verb_def)
qed

text \<open>
  C5, at a packet that is no connection message. The transport yields a service request
  packet, which decodes without error to a \<^verbatim>\<open>*serviceRequestMsg\<close>, a type without the
  marker method. \<^verbatim>\<open>ReceiveMessage\<close> returns no message and the error
  \<^verbatim>\<open>Not a valid connection message: <nil>\<close>: the operand of \<^verbatim>\<open>%T\<close> is the \<^verbatim>\<open>msg\<close>
  declared by the failed type assertion, which is nil, and not the decoded value, whose
  type description is \<^verbatim>\<open>*ssh.serviceRequestMsg\<close>.
\<close>

theorem ReceiveMessage_loses_type:
  "ReceiveMessage (read_returning ([5, 0, 0, 0, 0], None))
      (decode_returning (Some (Other ''*ssh.serviceRequestMsg'' ()), None)) conn0 []
     = ((None, Some (FmtError ''Not a valid connection message: <nil>'' :: unit error)), []) \<and>
   type_description (Some (Other ''*ssh.serviceRequestMsg'' ())) = ''*ssh.serviceRequestMsg''"
  by (simp add: ReceiveMessage_def read_returning_def decode_returning_def Errorf_def verb_def)

text \<open>
  C10. \<^verbatim>\<open>ReceiveMessage\<close> returns a message or an error and never both: the message is
  nil exactly when the error is not.
\<close>

theorem ReceiveMessage_message_xor_error:
  "(fst (fst (ReceiveMessage readPacket decode c w)) = None) =
   (snd (fst (ReceiveMessage readPacket decode c w)) \<noteq> None)"
proof -
  obtain packet err w' where r: "readPacket (transport c) w = ((packet, err), w')"
    by (metis surj_pair)
  obtain v err' where d: "decode packet = (v, err')"
    by (metis surj_pair)
  obtain m ok where a: "assert_Message v = (m, ok)"
    by (metis surj_pair)
  from assert_Message_cases [OF a] show ?thesis
    by (auto simp: ReceiveMessage_def r d a)
qed

subsection \<open>Discarding requests\<close>

lemma drain_foldl:
  "drain Reply reqs w =
   foldl (\<lambda>w req. snd (Reply req False None w)) w (filter WantReply reqs)"
  by (induction reqs arbitrary: w) simp_all

lemma drain_recording:
  "drain reply_recording reqs w = w @ map (\<lambda>req. (req, False, None)) (filter WantReply reqs)"
  by (induction reqs arbitrary: w) (simp_all add: reply_recording_def)

text \<open>
  C7. On a request stream that its producer closes after finitely many items,
  \<^verbatim>\<open>DiscardRequests\<close> returns, and what it has done is to call \<^verbatim>\<open>Reply(false, nil)\<close> once
  for each item whose \<^verbatim>\<open>WantReply\<close> is true, in the order of the stream, and nothing for
  the other items. With the recording \<^verbatim>\<open>Reply\<close> the replies sent are exactly these; when
  every one of the N items wants a reply, there are N replies, one per item, each negative
  with a nil payload.
\<close>

theorem DiscardRequests_rejects_all:
  assumes "closed in_chan"
  shows "DiscardRequests Reply in_chan w =
           Some (foldl (\<lambda>w req. snd (Reply req False None w)) w
                   (filter WantReply (items in_chan))) \<and>
         DiscardRequests reply_recording in_chan log =
           Some (log @ map (\<lambda>req. (req, False, None)) (filter WantReply (items in_chan))) \<and>
         ((\<forall>req \<in> set (items in_chan). WantReply req) \<longrightarrow>
            (\<exists>replies. DiscardRequests reply_recording in_chan [] = Some replies \<and>
               length replies = length (items in_chan) \<and>
               map fst replies = items in_chan \<and>
               map snd replies = replicate (length (items in_chan)) (False, None)))"
proof -
  have a: "DiscardRequests Reply in_chan w =
           Some (foldl (\<lambda>w req. snd (Reply req False None w)) w
                   (filter WantReply (items in_chan)))"
    using assms by (simp add: DiscardRequests_def drain_foldl)
  have b: "DiscardRequests reply_recording in_chan log =
           Some (log @ map (\<lambda>req. (req, False, None)) (filter WantReply (items in_chan)))"
    for log
    using assms by (simp add: DiscardRequests_def drain_recording)
  have c: "\<exists>replies. DiscardRequests reply_recording in_chan [] = Some replies \<and>
               length replies = length (items in_chan) \<and>
               map fst replies = items in_chan \<and>
               map snd replies = replicate (length (items in_chan)) (False, None)"
    if all: "\<forall>req \<in> set (items in_chan). WantReply req"
  proof -
    from all have "filter WantReply (items in_chan) = items in_chan"
      by simp
    with b [of "[]"] show ?thesis
      by (simp add: comp_def map_replicate_const)
  qed
  from a b c show ?thesis
    by blast
qed

text \<open>
  Three requests of which the second wants no reply: two negative replies. Two requests
  that both want one: two negative replies. A stream that is never closed: no return.
\<close>

theorem DiscardRequests_rejects_all_witness:
  "closed (Chan [\<lparr>WantReply = True, other = 1::nat\<rparr>, \<lparr>WantReply = False, other = 2\<rparr>,
                 \<lparr>WantReply = True, other = 3\<rparr>] True) \<and>
   DiscardRequests reply_recording
      (Chan [\<lparr>WantReply = True, other = 1::nat\<rparr>, \<lparr>WantReply = False, other = 2\<rparr>,
             \<lparr>WantReply = True, other = 3\<rparr>] True) []
     = Some [(\<lparr>WantReply = True, other = 1\<rparr>, False, None),
             (\<lparr>WantReply = True, other = 3\<rparr>, False, None)] \<and>
   DiscardRequests reply_recording
      (Chan [\<lparr>WantReply = True, other = 1::nat\<rparr>, \<lparr>WantReply = True, other = 2\<rparr>] True) []
     = Some [(\<lparr>WantReply = True, other = 1\<rparr>, False, None),
             (\<lparr>WantReply = True, other = 2\<rparr>, False, None)] \<and>
   DiscardRequests reply_recording (Chan [\<lparr>WantReply = True, other = 1::nat\<rparr>] False) [] = None"
proof -
  have c: "closed (Chan [\<lparr>WantReply = True, other = 1::nat\<rparr>, \<lparr>WantReply = False, other = 2\<rparr>,
                 \<lparr>WantReply = True, other = 3\<rparr>] True)"
    by simp
  have c2: "closed (Chan [\<lparr>WantReply = True, other = 1::nat\<rparr>,
                  \<lparr>WantReply = True, other = 2\<rparr>] True)"
    by simp
  have n: "DiscardRequests reply_recording (Chan [\<lparr>WantReply = True, other = 1::nat\<rparr>] False) []
             = None"
    by (simp add: DiscardRequests_def)
  show ?thesis
    using c n DiscardRequests_rejects_all [OF c, of reply_recording "[]" "[]"]
      DiscardRequests_rejects_all [OF c2, of reply_recording "[]" "[]"]
    by (simp add: reply_recording_def)
qed

end
